theory Spec2Isabelle
  imports Main
begin

section \<open>Python strings\<close>

text \<open>\<open>s.startswith(pre)\<close>.\<close>

fun startswith :: "string \<Rightarrow> string \<Rightarrow> bool" where
  "startswith s [] = True"
| "startswith [] (c # pre) = False"
| "startswith (d # s) (c # pre) = (d = c \<and> startswith s pre)"

text \<open>\<open>sub in s\<close> on strings: \<open>sub\<close> occurs in \<open>s\<close> as a contiguous run.\<close>

fun str_in :: "string \<Rightarrow> string \<Rightarrow> bool" where
  "str_in sub [] = (sub = [])"
| "str_in sub (c # s) = (startswith (c # s) sub \<or> str_in sub s)"

text \<open>\<open>str(i)\<close> for a non-negative integer: its decimal digits.\<close>

definition digit_char :: "nat \<Rightarrow> char" where
  "digit_char d = ''0123456789'' ! d"

fun str_nat :: "nat \<Rightarrow> string" where
  "str_nat n = (if n < 10 then [digit_char n] else str_nat (n div 10) @ [digit_char (n mod 10)])"

declare str_nat.simps [simp del]

section \<open>Per-user data\<close>

text \<open>
  \<open>context.user_data\<close> is a dictionary with two keys the handlers use: \<open>FILE_IDS\<close>, a list
  of sticker file ids, and \<open>TEMP_FILE_IDS\<close>, a dictionary from result ids to sticker file
  ids. A key that was never set is \<open>None\<close> here; \<open>setdefault\<close> sets it.
\<close>

record user_data =
  file_ids :: "string list option"
  temp_file_ids :: "(string \<rightharpoonup> string) option"

definition setdefault_file_ids :: "user_data \<Rightarrow> user_data" where
  "setdefault_file_ids ud =
     (case file_ids ud of None \<Rightarrow> ud\<lparr>file_ids := Some []\<rparr> | Some l \<Rightarrow> ud)"

definition setdefault_temp_file_ids :: "user_data \<Rightarrow> user_data" where
  "setdefault_temp_file_ids ud =
     (case temp_file_ids ud of None \<Rightarrow> ud\<lparr>temp_file_ids := Some Map.empty\<rparr> | Some m \<Rightarrow> ud)"

text \<open>The list and the dictionary as a reader sees them: a missing key reads as empty.\<close>

definition history :: "user_data \<Rightarrow> string list" where
  "history ud = (case file_ids ud of None \<Rightarrow> [] | Some l \<Rightarrow> l)"

definition pending :: "user_data \<Rightarrow> (string \<rightharpoonup> string)" where
  "pending ud = (case temp_file_ids ud of None \<Rightarrow> Map.empty | Some m \<Rightarrow> m)"

text \<open>\<open>context.user_data.setdefault(FILE_IDS, []).append(file_id)\<close>\<close>

definition append_file_id :: "string \<Rightarrow> user_data \<Rightarrow> user_data" where
  "append_file_id fid ud = ud\<lparr>file_ids := Some (history ud @ [fid])\<rparr>"

text \<open>\<open>context.user_data.setdefault(TEMP_FILE_IDS, {})[key] = file_id\<close>\<close>

definition store_temp_file_id :: "string \<Rightarrow> string \<Rightarrow> user_data \<Rightarrow> user_data" where
  "store_temp_file_id key fid ud = ud\<lparr>temp_file_ids := Some ((pending ud)(key \<mapsto> fid))\<rparr>"

section \<open>The chosen-result handler\<close>

text \<open>
  \<open>handle_chosen_inline_result\<close>: \<open>temp_dict.get(result_id)\<close> is \<open>None\<close> for a missing key,
  and \<open>if file_id:\<close> is false for \<open>None\<close> and for the empty string.
\<close>

definition handle_chosen_inline_result :: "string \<Rightarrow> user_data \<Rightarrow> user_data" where
  "handle_chosen_inline_result result_id ud =
     (if \<not> startswith result_id ''tweet'' then
        let ud1 = setdefault_temp_file_ids ud;
            temp_dict = pending ud1;
            ud2 = (case temp_dict result_id of
                     None \<Rightarrow> ud1
                   | Some file_id \<Rightarrow> if file_id \<noteq> [] then append_file_id file_id ud1 else ud1)
        in ud2\<lparr>temp_file_ids := Some Map.empty\<rparr>
      else ud)"

section \<open>The platform interface\<close>

text \<open>
  Exceptions are values: \<open>BadRequest\<close> of \<open>telegram.error\<close> with its message,
  \<open>HyphenationError\<close> of the renderer with its message (\<open>str(e)\<close> is the message of
  either), \<open>IndexError\<close> of a list read out of range, and any other exception.
\<close>

datatype error = BadRequest string | HyphenationError string | IndexError | OtherError string

datatype sticker = Sticker (file_id: string)

datatype sticker_set = StickerSet (stickers: "sticker list")

datatype user = User (user_id: int)

datatype inline_result = InlineQueryResultCachedSticker (res_id: string) (sticker_file_id: string)

text \<open>
  The keyword arguments \<open>inline\<close> builds for \<open>update.inline_query.answer\<close>; the three
  arguments it always passes (\<open>is_personal=True, auto_pagination=True, cache_time=0\<close>)
  are constants and left out.
\<close>

record kwargs =
  results :: "inline_result list"
  switch_pm_text :: "string option"
  switch_pm_parameter :: "string option"

text \<open>
  \<open>telegram.Bot\<close> (with the reply shortcuts of \<open>Message\<close> and \<open>InlineQuery\<close>) as the
  handlers use it: each method acts on the state \<open>'p\<close> of the platform and returns or raises.
  The parameter \<open>bot\<close> of the source is \<open>bt\<close> below.
  The library is not part of the repository, so the methods are parameters of the code.
\<close>

record 'p bot =
  username :: string
  bot_get_sticker_set :: "string \<Rightarrow> 'p \<Rightarrow> (error + sticker_set) \<times> 'p"
  bot_create_new_sticker_set ::
    "int \<Rightarrow> string \<Rightarrow> string \<Rightarrow> string \<Rightarrow> string \<Rightarrow> 'p \<Rightarrow> (error + unit) \<times> 'p"
  bot_add_sticker_to_set :: "int \<Rightarrow> string \<Rightarrow> string \<Rightarrow> string \<Rightarrow> 'p \<Rightarrow> (error + unit) \<times> 'p"
  bot_delete_sticker_from_set :: "string \<Rightarrow> 'p \<Rightarrow> (error + unit) \<times> 'p"
  bot_send_chat_action :: "int \<Rightarrow> 'p \<Rightarrow> (error + unit) \<times> 'p"
  bot_reply_sticker :: "string \<Rightarrow> 'p \<Rightarrow> (error + unit) \<times> 'p"
  bot_reply_text :: "string \<Rightarrow> 'p \<Rightarrow> (error + unit) \<times> 'p"
  bot_answer_inline_query :: "kwargs \<Rightarrow> 'p \<Rightarrow> (error + unit) \<times> 'p"

text \<open>
  \<open>ADMIN\<close> and \<open>STICKER_SET_NAME\<close> are read from \<open>bot.ini\<close>, and the seed image from
  \<open>./logo/TwitterStatusBot-round.png\<close>; none of the files is in the repository's sources.
\<close>

record config =
  ADMIN :: int
  STICKER_SET_NAME :: string
  logo :: string

text \<open>The emoji passed for every sticker, as its UTF-8 bytes.\<close>

definition emojis :: string where
  "emojis = map char_of [240, 159, 144, 166 :: nat]"

section \<open>The sticker set\<close>

definition build_sticker_set_name :: "config \<Rightarrow> 'p bot \<Rightarrow> string" where
  "build_sticker_set_name cfg bt = STICKER_SET_NAME cfg @ ''_by_'' @ username bt"

definition get_sticker_set :: "config \<Rightarrow> 'p bot \<Rightarrow> string \<Rightarrow> 'p \<Rightarrow> (error + sticker_set) \<times> 'p" where
  "get_sticker_set cfg bt name p =
     (case bot_get_sticker_set bt name p of
        (Inr s, p1) \<Rightarrow> (Inr s, p1)
      | (Inl (BadRequest e), p1) \<Rightarrow>
          (if str_in ''invalid'' e then
             (case bot_create_new_sticker_set bt (ADMIN cfg) name (STICKER_SET_NAME cfg) emojis
                     (logo cfg) p1 of
                (Inl e2, p2) \<Rightarrow> (Inl e2, p2)
              | (Inr u, p2) \<Rightarrow> bot_get_sticker_set bt name p2)
           else (Inl (BadRequest e), p1))
      | (Inl e, p1) \<Rightarrow> (Inl e, p1))"

text \<open>The loop of \<open>clean_sticker_set\<close> over \<open>sticker_set.stickers[1:]\<close>.\<close>

fun delete_stickers :: "'p bot \<Rightarrow> sticker list \<Rightarrow> 'p \<Rightarrow> (error + unit) \<times> 'p" where
  "delete_stickers bt [] p = (Inr (), p)"
| "delete_stickers bt (s # ss) p =
     (case bot_delete_sticker_from_set bt (file_id s) p of
        (Inr u, p1) \<Rightarrow> delete_stickers bt ss p1
      | (Inl (BadRequest e), p1) \<Rightarrow>
          (if str_in ''Stickerset_not_modified'' e then delete_stickers bt ss p1
           else (Inl (BadRequest e), p1))
      | (Inl e, p1) \<Rightarrow> (Inl e, p1))"

definition clean_sticker_set :: "config \<Rightarrow> 'p bot \<Rightarrow> 'p \<Rightarrow> (error + unit) \<times> 'p" where
  "clean_sticker_set cfg bt p =
     (case get_sticker_set cfg bt (build_sticker_set_name cfg bt) p of
        (Inl e, p1) \<Rightarrow> (Inl e, p1)
      | (Inr sticker_set, p1) \<Rightarrow>
          (if length (stickers sticker_set) > 1
           then delete_stickers bt (drop 1 (stickers sticker_set)) p1
           else (Inr (), p1)))"

text \<open>
  \<open>get_sticker_id\<close>. \<open>build_sticker\<close> is imported from \<open>twitter\<close>, a module of the
  repository that is not in its sources: it is the parameter \<open>build_sticker\<close>, which
  returns the PNG bytes of the sticker or raises. \<open>sticker_set.stickers[-1]\<close> raises
  \<open>IndexError\<close> on an empty list.
\<close>

definition get_sticker_id ::
  "config \<Rightarrow> 'p bot \<Rightarrow> (string \<Rightarrow> user \<Rightarrow> error + string) \<Rightarrow> string \<Rightarrow> user \<Rightarrow> 'p
     \<Rightarrow> (error + string) \<times> 'p" where
  "get_sticker_id cfg bt build_sticker text user p =
     (case clean_sticker_set cfg bt p of
        (Inl e, p1) \<Rightarrow> (Inl e, p1)
      | (Inr u, p1) \<Rightarrow>
     (let sticker_set_name = build_sticker_set_name cfg bt in
      case build_sticker text user of
        Inl e \<Rightarrow> (Inl e, p1)
      | Inr sticker_stream \<Rightarrow>
     (case get_sticker_set cfg bt sticker_set_name p1 of
        (Inl e, p2) \<Rightarrow> (Inl e, p2)
      | (Inr s0, p2) \<Rightarrow>
     (case bot_add_sticker_to_set bt (ADMIN cfg) sticker_set_name emojis sticker_stream p2 of
        (Inl e, p3) \<Rightarrow> (Inl e, p3)
      | (Inr u, p3) \<Rightarrow>
     (case get_sticker_set cfg bt sticker_set_name p3 of
        (Inl e, p4) \<Rightarrow> (Inl e, p4)
      | (Inr sticker_set, p4) \<Rightarrow>
          (if stickers sticker_set = [] then (Inl IndexError, p4)
           else (Inr (file_id (last (stickers sticker_set))), p4)))))))"

section \<open>The message and inline handlers\<close>

text \<open>The body of the \<open>try\<close> of \<open>message\<close>.\<close>

definition message_try ::
  "config \<Rightarrow> 'p bot \<Rightarrow> (string \<Rightarrow> user \<Rightarrow> error + string) \<Rightarrow> user \<Rightarrow> string
     \<Rightarrow> user_data \<Rightarrow> 'p \<Rightarrow> (error + unit) \<times> user_data \<times> 'p" where
  "message_try cfg bt build_sticker user text ud p =
     (case get_sticker_id cfg bt build_sticker text user p of
        (Inl e, p1) \<Rightarrow> (Inl e, ud, p1)
      | (Inr fid, p1) \<Rightarrow>
          (case bot_reply_sticker bt fid p1 of
             (Inl e, p2) \<Rightarrow> (Inl e, ud, p2)
           | (Inr u, p2) \<Rightarrow> (Inr (), append_file_id fid ud, p2)))"

definition message ::
  "config \<Rightarrow> 'p bot \<Rightarrow> (string \<Rightarrow> user \<Rightarrow> error + string) \<Rightarrow> user \<Rightarrow> string
     \<Rightarrow> user_data \<Rightarrow> 'p \<Rightarrow> (error + unit) \<times> user_data \<times> 'p" where
  "message cfg bt build_sticker user text ud p =
     (case bot_send_chat_action bt (user_id user) p of
        (Inl e, p1) \<Rightarrow> (Inl e, ud, p1)
      | (Inr u, p1) \<Rightarrow>
     (case (case message_try cfg bt build_sticker user text ud p1 of
              (Inl (HyphenationError m), ud2, p2) \<Rightarrow>
                (case bot_reply_text bt m p2 of
                   (Inl e, p3) \<Rightarrow> (Inl e, ud2, p3)
                 | (Inr u, p3) \<Rightarrow> (Inr (), ud2, p3))
            | r \<Rightarrow> r) of
        (Inl e, ud3, p3) \<Rightarrow> (Inl e, ud3, p3)
      | (Inr u, ud3, p3) \<Rightarrow>
          (case clean_sticker_set cfg bt p3 of (r, p4) \<Rightarrow> (r, ud3, p4))))"

text \<open>
  The candidates for the stored stickers:
  \<open>[InlineQueryResultCachedSticker(id=f'tweet {i}', sticker_file_id=sticker_id)
     for i, sticker_id in enumerate(reversed(file_ids))]\<close>
\<close>

definition stored_results :: "string list \<Rightarrow> inline_result list" where
  "stored_results fids =
     map (\<lambda>(i, sticker_id). InlineQueryResultCachedSticker (''tweet '' @ str_nat i) sticker_id)
       (enumerate 0 (rev fids))"

text \<open>
  The \<open>if query:\<close> block of \<open>inline\<close>, on the user data, the keyword arguments and the
  platform. \<open>key\<close> is what \<open>str(uuid4())\<close> returns in this call.
\<close>

definition inline_publish ::
  "config \<Rightarrow> 'p bot \<Rightarrow> (string \<Rightarrow> user \<Rightarrow> error + string) \<Rightarrow> string \<Rightarrow> user \<Rightarrow> string
     \<Rightarrow> user_data \<Rightarrow> kwargs \<Rightarrow> 'p \<Rightarrow> (error + unit) \<times> user_data \<times> kwargs \<times> 'p" where
  "inline_publish cfg bt build_sticker key user query ud kw p =
     (if query \<noteq> [] then
        (case get_sticker_id cfg bt build_sticker query user p of
           (Inr fid, p1) \<Rightarrow>
             (Inr (), store_temp_file_id key fid ud,
              kw\<lparr>results := InlineQueryResultCachedSticker key fid # results kw\<rparr>, p1)
         | (Inl (HyphenationError m), p1) \<Rightarrow>
             (Inr (), ud,
              kw\<lparr>results := [], switch_pm_text := Some ''Click me!'',
                 switch_pm_parameter := Some ''hyphenation_error''\<rparr>, p1)
         | (Inl e, p1) \<Rightarrow> (Inl e, ud, kw, p1))
      else (Inr (), ud, kw, p))"

definition inline ::
  "config \<Rightarrow> 'p bot \<Rightarrow> (string \<Rightarrow> user \<Rightarrow> error + string) \<Rightarrow> string \<Rightarrow> user \<Rightarrow> string
     \<Rightarrow> user_data \<Rightarrow> 'p \<Rightarrow> (error + unit) \<times> user_data \<times> 'p" where
  "inline cfg bt build_sticker key user query ud p =
     (let ud0 = setdefault_file_ids ud;
          kw0 = \<lparr>results = stored_results (history ud0), switch_pm_text = None,
                 switch_pm_parameter = None\<rparr>
      in case inline_publish cfg bt build_sticker key user query ud0 kw0 p of
           (Inl e, ud1, kw, p1) \<Rightarrow> (Inl e, ud1, p1)
         | (Inr u, ud1, kw, p1) \<Rightarrow>
             (case bot_answer_inline_query bt kw p1 of
                (Inr u, p2) \<Rightarrow> (case clean_sticker_set cfg bt p2 of (r, p3) \<Rightarrow> (r, ud1, p3))
              | (Inl (BadRequest e), p2) \<Rightarrow>
                  (if str_in ''Query is too old'' e
                   then (case clean_sticker_set cfg bt p2 of (r, p3) \<Rightarrow> (r, ud1, p3))
                   else (Inl (BadRequest e), ud1, p2))
              | (Inl e, p2) \<Rightarrow> (Inl e, ud1, p2)))"

section \<open>The key of a pending result\<close>

text \<open>
  \<open>str(uuid4())\<close> is 36 characters: lower-case hexadecimal digits, with \<open>-\<close> at the
  positions 8, 13, 18 and 23.
\<close>

definition hex_digit :: "char \<Rightarrow> bool" where
  "hex_digit c = (c \<in> set ''0123456789abcdef'')"

definition uuid4_str :: "string \<Rightarrow> bool" where
  "uuid4_str k =
     (length k = 36 \<and>
      list_all (\<lambda>(i, c). if i \<in> {8, 13, 18, 23} then c = CHR ''-'' else hex_digit c)
        (enumerate 0 k))"

section \<open>A reliable platform\<close>

text \<open>
  The platform the handlers talk to, when every request is served: it holds the bot's one
  sticker set (\<open>None\<close> until it is created), gives every sticker it registers a fresh file
  id, and delivers what is sent. A request for a set that does not exist is answered
  \<open>Stickerset_invalid\<close>, the creation of a set that exists \<open>already occupied\<close>, and the
  deletion of a sticker that is in no set \<open>Stickerset_not_modified\<close>.
\<close>

datatype sent =
  ChatAction int | StickerReply string | TextReply string | InlineAnswer kwargs

record platform =
  collection :: "sticker list option"
  issued :: nat
  outbox :: "sent list"

definition new_file_id :: "nat \<Rightarrow> string" where
  "new_file_id n = ''sticker'' @ str_nat n"

definition tg_get_sticker_set :: "string \<Rightarrow> platform \<Rightarrow> (error + sticker_set) \<times> platform" where
  "tg_get_sticker_set name p =
     (case collection p of
        None \<Rightarrow> (Inl (BadRequest ''Stickerset_invalid''), p)
      | Some ss \<Rightarrow> (Inr (StickerSet ss), p))"

definition tg_create_new_sticker_set ::
  "int \<Rightarrow> string \<Rightarrow> string \<Rightarrow> string \<Rightarrow> string \<Rightarrow> platform \<Rightarrow> (error + unit) \<times> platform" where
  "tg_create_new_sticker_set uid name title emj png p =
     (case collection p of
        Some ss \<Rightarrow> (Inl (BadRequest ''Sticker set name is already occupied''), p)
      | None \<Rightarrow>
          (Inr (), p\<lparr>collection := Some [Sticker (new_file_id (issued p))],
                     issued := Suc (issued p)\<rparr>))"

definition tg_add_sticker_to_set ::
  "int \<Rightarrow> string \<Rightarrow> string \<Rightarrow> string \<Rightarrow> platform \<Rightarrow> (error + unit) \<times> platform" where
  "tg_add_sticker_to_set uid name emj png p =
     (case collection p of
        None \<Rightarrow> (Inl (BadRequest ''Stickerset_invalid''), p)
      | Some ss \<Rightarrow>
          (Inr (), p\<lparr>collection := Some (ss @ [Sticker (new_file_id (issued p))]),
                     issued := Suc (issued p)\<rparr>))"

definition in_collection :: "string \<Rightarrow> platform \<Rightarrow> bool" where
  "in_collection fid p =
     (case collection p of None \<Rightarrow> False | Some ss \<Rightarrow> fid \<in> set (map file_id ss))"

definition tg_delete_sticker_from_set :: "string \<Rightarrow> platform \<Rightarrow> (error + unit) \<times> platform" where
  "tg_delete_sticker_from_set fid p =
     (if in_collection fid p
      then (Inr (), p\<lparr>collection := map_option (filter (\<lambda>s. file_id s \<noteq> fid)) (collection p)\<rparr>)
      else (Inl (BadRequest ''Stickerset_not_modified''), p))"

definition deliver :: "sent \<Rightarrow> platform \<Rightarrow> (error + unit) \<times> platform" where
  "deliver x p = (Inr (), p\<lparr>outbox := outbox p @ [x]\<rparr>)"

definition telegram :: "string \<Rightarrow> platform bot" where
  "telegram name =
     \<lparr>username = name,
      bot_get_sticker_set = tg_get_sticker_set,
      bot_create_new_sticker_set = tg_create_new_sticker_set,
      bot_add_sticker_to_set = tg_add_sticker_to_set,
      bot_delete_sticker_from_set = tg_delete_sticker_from_set,
      bot_send_chat_action = (\<lambda>uid. deliver (ChatAction uid)),
      bot_reply_sticker = (\<lambda>fid. deliver (StickerReply fid)),
      bot_reply_text = (\<lambda>t. deliver (TextReply t)),
      bot_answer_inline_query = (\<lambda>kw. deliver (InlineAnswer kw))\<rparr>"

text \<open>
  The sticker set exists and holds its seed, the file ids in it differ from each other,
  and each was issued by the platform.
\<close>

definition seeded :: "platform \<Rightarrow> bool" where
  "seeded p =
     (case collection p of
        None \<Rightarrow> False
      | Some ss \<Rightarrow> ss \<noteq> [] \<and> distinct (map file_id ss) \<and>
                  set (map file_id ss) \<subseteq> set (map new_file_id [0..<issued p]))"

definition size_of :: "platform \<Rightarrow> nat" where
  "size_of p = (case collection p of None \<Rightarrow> 0 | Some ss \<Rightarrow> length ss)"

text \<open>
  The states the handlers leave on this platform: the set cut down to its first sticker,
  and the set with its first sticker and one newly registered sticker.
\<close>

definition keep_first :: "platform \<Rightarrow> platform" where
  "keep_first p = p\<lparr>collection := map_option (take 1) (collection p)\<rparr>"

definition with_new :: "platform \<Rightarrow> platform" where
  "with_new p =
     p\<lparr>collection := map_option (\<lambda>ss. take 1 ss @ [Sticker (new_file_id (issued p))]) (collection p),
       issued := Suc (issued p)\<rparr>"

definition sends :: "sent list \<Rightarrow> platform \<Rightarrow> platform" where
  "sends xs p = p\<lparr>outbox := outbox p @ xs\<rparr>"

text \<open>
  A platform on which a second worker creates the sticker set right after this worker's
  lookup has failed, so that this worker's creation is answered \<open>already occupied\<close>.
\<close>

definition raced :: "string \<Rightarrow> platform bot" where
  "raced name =
     (telegram name)\<lparr>bot_get_sticker_set :=
        (\<lambda>n p. case tg_get_sticker_set n p of
                  (Inl e, p1) \<Rightarrow> (Inl e, snd (tg_create_new_sticker_set 0 n [] [] [] p1))
                | (Inr s, p1) \<Rightarrow> (Inr s, p1))\<rparr>"

section \<open>Sequences of requests\<close>

datatype request = Publish string user | Trim

fun run_request ::
  "config \<Rightarrow> 'p bot \<Rightarrow> (string \<Rightarrow> user \<Rightarrow> error + string) \<Rightarrow> request \<Rightarrow> 'p \<Rightarrow> 'p" where
  "run_request cfg bt build_sticker (Publish text user) p =
     snd (get_sticker_id cfg bt build_sticker text user p)"
| "run_request cfg bt build_sticker Trim p = snd (clean_sticker_set cfg bt p)"

fun run_requests ::
  "config \<Rightarrow> 'p bot \<Rightarrow> (string \<Rightarrow> user \<Rightarrow> error + string) \<Rightarrow> request list \<Rightarrow> 'p \<Rightarrow> 'p" where
  "run_requests cfg bt build_sticker [] p = p"
| "run_requests cfg bt build_sticker (r # rs) p =
     run_requests cfg bt build_sticker rs (run_request cfg bt build_sticker r p)"

section \<open>Concrete data\<close>

definition demo_cfg :: config where
  "demo_cfg = \<lparr>ADMIN = 1, STICKER_SET_NAME = ''tweets'', logo = ''logo''\<rparr>"

definition demo_user :: user where
  "demo_user = User 7"

text \<open>A renderer that fails on the text \<open>bad\<close> and returns the text as the image otherwise.\<close>

definition demo_render :: "string \<Rightarrow> user \<Rightarrow> error + string" where
  "demo_render text u = (if text = ''bad'' then Inl (HyphenationError ''no hyphenation'') else Inr text)"

definition demo_platform :: platform where
  "demo_platform = \<lparr>collection = Some [Sticker ''sticker0''], issued = Suc 0, outbox = []\<rparr>"

definition empty_platform :: platform where
  "empty_platform = \<lparr>collection = None, issued = 0, outbox = []\<rparr>"

definition demo_data :: user_data where
  "demo_data = \<lparr>file_ids = Some [''old1'', ''old2''], temp_file_ids = None\<rparr>"

definition key1 :: string where
  "key1 = ''0f8fad5b-d9cb-469f-a165-70867728950e''"

definition key2 :: string where
  "key2 = ''7c9e6679-7425-40de-944b-e07fc1f90ae7''"

text \<open>A user with one stored sticker and one entry left in the temporary dictionary.\<close>

definition stale_data :: user_data where
  "stale_data = \<lparr>file_ids = Some [''old1''], temp_file_ids = Some [key1 \<mapsto> ''sticker1'']\<rparr>"

text \<open>
  Two inline queries of one user in a row, \<open>hello\<close> and then \<open>world\<close>, with no
  chosen-result notification in between: the results of the two calls of \<open>inline\<close>.
\<close>

definition after_hello :: "(error + unit) \<times> user_data \<times> platform" where
  "after_hello =
     inline demo_cfg (telegram ''bot'') demo_render key1 demo_user ''hello'' demo_data demo_platform"

definition after_world :: "(error + unit) \<times> user_data \<times> platform" where
  "after_world =
     inline demo_cfg (telegram ''bot'') demo_render key2 demo_user ''world''
       (fst (snd after_hello)) (snd (snd after_hello))"

section \<open>Facts about the strings\<close>

lemma str_nat_ne: "str_nat n \<noteq> []"
  by (subst str_nat.simps) simp

lemma digit_char_inj: "a < 10 \<Longrightarrow> b < 10 \<Longrightarrow> digit_char a = digit_char b \<Longrightarrow> a = b"
  unfolding digit_char_def
  by (subst (asm) nth_eq_iff_index_eq) simp_all

lemma str_nat_inj: "str_nat n = str_nat m \<Longrightarrow> n = m"
proof (induction n arbitrary: m rule: str_nat.induct)
  case (1 n)
  show ?case
  proof (cases "n < 10")
    case True
    then have a: "str_nat n = [digit_char n]" by (subst str_nat.simps) simp
    show ?thesis
    proof (cases "m < 10")
      case True
      then have "str_nat m = [digit_char m]" by (subst str_nat.simps) simp
      with a "1.prems" \<open>n < 10\<close> True show ?thesis by (simp add: digit_char_inj)
    next
      case False
      then have "str_nat m = str_nat (m div 10) @ [digit_char (m mod 10)]"
        by (subst str_nat.simps) simp
      with a "1.prems" have "str_nat (m div 10) = []" by simp
      then show ?thesis by (simp add: str_nat_ne)
    qed
  next
    case False
    then have a: "str_nat n = str_nat (n div 10) @ [digit_char (n mod 10)]"
      by (subst str_nat.simps) simp
    show ?thesis
    proof (cases "m < 10")
      case True
      then have "str_nat m = [digit_char m]" by (subst str_nat.simps) simp
      with a "1.prems" have "str_nat (n div 10) = []" by simp
      then show ?thesis by (simp add: str_nat_ne)
    next
      case mf: False
      then have b: "str_nat m = str_nat (m div 10) @ [digit_char (m mod 10)]"
        by (subst str_nat.simps) simp
      from a b "1.prems" have c: "str_nat (n div 10) = str_nat (m div 10)"
        and d: "digit_char (n mod 10) = digit_char (m mod 10)" by simp_all
      from "1.IH" [OF False c] have e: "n div 10 = m div 10" .
      from d have f: "n mod 10 = m mod 10" by (simp add: digit_char_inj)
      from e f show ?thesis by (metis div_mult_mod_eq)
    qed
  qed
qed

lemma uuid_not_tweet: "uuid4_str k \<Longrightarrow> \<not> startswith k ''tweet''"
  by (cases k) (auto simp: uuid4_str_def hex_digit_def)

lemma map_fst_zip_fun:
  "length xs = length ys \<Longrightarrow> map (\<lambda>x. f (fst x)) (zip xs ys) = map f xs"
  by (induction xs ys rule: list_induct2) simp_all

lemma stored_results_ids:
  "map res_id (stored_results fids) = map (\<lambda>i. ''tweet '' @ str_nat i) [0..<length fids]"
  using map_fst_zip_fun [of "[0..<length fids]" "rev fids" "\<lambda>i. ''tweet '' @ str_nat i"]
  by (simp add: stored_results_def enumerate_eq_zip comp_def case_prod_unfold)

lemma stored_results_file_ids:
  "map sticker_file_id (stored_results fids) = rev fids"
  by (simp add: stored_results_def enumerate_eq_zip comp_def case_prod_unfold)

section \<open>Facts about the user data\<close>

lemmas ud_defs = handle_chosen_inline_result_def setdefault_temp_file_ids_def pending_def
  append_file_id_def history_def setdefault_file_ids_def store_temp_file_id_def

section \<open>The chosen-result handler on a result that is not a pending one\<close>

text \<open>
  C6, as the specification states it: when the chosen result is a candidate for a stored
  sticker, nothing is appended to the stored list and a stale temporary entry is cleared.
  The handler does nothing at all for a result id that starts with \<open>tweet\<close>. For the user
  \<open>stale_data\<close>, the id \<open>tweet 0\<close> is the id of the first stored candidate and is no key of
  the temporary dictionary, and after the handler the temporary entry is still there.
\<close>

theorem chosen_history_pick_counterexample:
  "res_id (hd (stored_results (history stale_data))) = ''tweet 0'' \<and>
   pending stale_data ''tweet 0'' = None \<and>
   pending (handle_chosen_inline_result ''tweet 0'' stale_data) key1 = Some ''sticker1''"
  by (simp add: ud_defs stale_data_def stored_results_def key1_def str_nat.simps digit_char_def)

text \<open>
  C6, amended: for a result id that starts with \<open>tweet\<close> the handler changes nothing,
  neither the stored list nor the temporary dictionary; for a result id that does not
  start with \<open>tweet\<close> and is no key of the temporary dictionary, the stored list is
  unchanged and the temporary dictionary is emptied.
\<close>

theorem chosen_other_amended:
  "(startswith result_id ''tweet'' \<longrightarrow> handle_chosen_inline_result result_id ud = ud) \<and>
   (\<not> startswith result_id ''tweet'' \<and> pending ud result_id = None \<longrightarrow>
      file_ids (handle_chosen_inline_result result_id ud) = file_ids ud \<and>
      pending (handle_chosen_inline_result result_id ud) = Map.empty)"
  by (simp add: ud_defs split: option.splits)

theorem chosen_other_amended_witness:
  "startswith ''tweet 0'' ''tweet'' \<and>
   handle_chosen_inline_result ''tweet 0'' stale_data = stale_data \<and>
   \<not> startswith key2 ''tweet'' \<and> pending stale_data key2 = None \<and>
   file_ids (handle_chosen_inline_result key2 stale_data) = Some [''old1''] \<and>
   pending (handle_chosen_inline_result key2 stale_data) = Map.empty"
  using chosen_other_amended [of "''tweet 0''" stale_data]
    chosen_other_amended [of key2 stale_data]
  by (simp add: stale_data_def key1_def key2_def pending_def)

section \<open>Facts about the reliable platform\<close>

lemma new_file_id_inj: "new_file_id n = new_file_id m \<Longrightarrow> n = m"
  by (simp add: new_file_id_def str_nat_inj)

lemma new_file_id_ne: "new_file_id n \<noteq> []"
  by (simp add: new_file_id_def)

lemma telegram_sel [simp]:
  "username (telegram u) = u"
  "bot_get_sticker_set (telegram u) = tg_get_sticker_set"
  "bot_create_new_sticker_set (telegram u) = tg_create_new_sticker_set"
  "bot_add_sticker_to_set (telegram u) = tg_add_sticker_to_set"
  "bot_delete_sticker_from_set (telegram u) = tg_delete_sticker_from_set"
  "bot_send_chat_action (telegram u) uid = deliver (ChatAction uid)"
  "bot_reply_sticker (telegram u) fid = deliver (StickerReply fid)"
  "bot_reply_text (telegram u) t = deliver (TextReply t)"
  "bot_answer_inline_query (telegram u) kw = deliver (InlineAnswer kw)"
  by (simp_all add: telegram_def)

lemma get_sticker_set_telegram:
  "get_sticker_set cfg (telegram u) name p =
     (case collection p of
        Some ss \<Rightarrow> (Inr (StickerSet ss), p)
      | None \<Rightarrow>
          (Inr (StickerSet [Sticker (new_file_id (issued p))]),
           p\<lparr>collection := Some [Sticker (new_file_id (issued p))], issued := Suc (issued p)\<rparr>))"
  by (simp add: get_sticker_set_def tg_get_sticker_set_def
      tg_create_new_sticker_set_def split: option.splits)

lemma filter_distinct_file_id:
  assumes "distinct (map file_id (pre @ s # ss))"
  shows "filter (\<lambda>x. file_id x \<noteq> file_id s) (pre @ s # ss) = pre @ ss"
proof -
  from assms have "\<forall>x \<in> set pre \<union> set ss. file_id x \<noteq> file_id s"
    by (force simp: image_iff)
  then show ?thesis by (simp add: filter_id_conv)
qed

lemma delete_stickers_telegram:
  "collection p = Some (pre @ ss) \<Longrightarrow> distinct (map file_id (pre @ ss)) \<Longrightarrow>
   delete_stickers (telegram u) ss p = (Inr (), p\<lparr>collection := Some pre\<rparr>)"
proof (induction ss arbitrary: p)
  case Nil
  then show ?case by simp
next
  case (Cons s ss)
  let ?q = "p\<lparr>collection := Some (pre @ ss)\<rparr>"
  from Cons.prems(1) have inc: "in_collection (file_id s) p"
    by (simp add: in_collection_def)
  from Cons.prems have del: "tg_delete_sticker_from_set (file_id s) p = (Inr (), ?q)"
    using filter_distinct_file_id [of pre s ss] inc
    by (simp add: tg_delete_sticker_from_set_def)
  have "delete_stickers (telegram u) ss ?q = (Inr (), ?q\<lparr>collection := Some pre\<rparr>)"
    using Cons.prems by (intro Cons.IH) simp_all
  with del show ?case by simp
qed

lemma clean_sticker_set_cons:
  assumes "collection p = Some (s # ss)" and "distinct (map file_id (s # ss))"
  shows "clean_sticker_set cfg (telegram u) p = (Inr (), p\<lparr>collection := Some [s]\<rparr>)"
proof (cases ss)
  case Nil
  with assms show ?thesis
    by (simp add: clean_sticker_set_def get_sticker_set_telegram)
next
  case (Cons t ts)
  have "delete_stickers (telegram u) ss p = (Inr (), p\<lparr>collection := Some [s]\<rparr>)"
    using assms delete_stickers_telegram [of p "[s]" ss u] by simp
  with assms Cons show ?thesis
    by (simp add: clean_sticker_set_def get_sticker_set_telegram)
qed

lemma seededE:
  assumes "seeded p"
  obtains s ss where "collection p = Some (s # ss)" and "distinct (map file_id (s # ss))"
    and "file_id ` set (s # ss) \<subseteq> new_file_id ` {0..<issued p}"
    and "file_id s \<noteq> new_file_id (issued p)"
proof -
  from assms obtain xs where c: "collection p = Some xs" and ne: "xs \<noteq> []"
    and d: "distinct (map file_id xs)"
    and i: "file_id ` set xs \<subseteq> new_file_id ` {0..<issued p}"
    by (auto simp: seeded_def split: option.splits)
  from ne obtain s ss where xs: "xs = s # ss" by (cases xs) auto
  from i xs obtain k where "k < issued p" and "file_id s = new_file_id k" by auto
  then have "file_id s \<noteq> new_file_id (issued p)" using new_file_id_inj by fastforce
  with c d i xs that show thesis by blast
qed

lemma clean_sticker_set_telegram:
  "seeded p \<Longrightarrow> clean_sticker_set cfg (telegram u) p = (Inr (), keep_first p)"
  by (erule seededE) (simp add: clean_sticker_set_cons keep_first_def)

lemma seeded_keep_first: "seeded p \<Longrightarrow> seeded (keep_first p)"
  by (erule seededE) (simp add: seeded_def keep_first_def)

lemma seeded_with_new: "seeded p \<Longrightarrow> seeded (with_new p)"
proof (erule seededE)
  fix s ss
  assume c: "collection p = Some (s # ss)"
    and i: "file_id ` set (s # ss) \<subseteq> new_file_id ` {0..<issued p}"
    and n: "file_id s \<noteq> new_file_id (issued p)"
  from i have "file_id s \<in> new_file_id ` {0..<issued p}" by auto
  with c n show "seeded (with_new p)" by (simp add: seeded_def with_new_def)
qed

lemma seeded_sends: "seeded (sends xs p) = seeded p"
  by (cases "collection p") (simp_all add: seeded_def sends_def)

lemma size_keep_first: "seeded p \<Longrightarrow> size_of (keep_first p) = 1"
  by (erule seededE) (simp add: size_of_def keep_first_def)

lemma size_with_new: "seeded p \<Longrightarrow> size_of (with_new p) = 2"
  by (erule seededE) (simp add: size_of_def with_new_def)

lemma keep_first_with_new:
  "seeded p \<Longrightarrow> keep_first (with_new p) = (keep_first p)\<lparr>issued := Suc (issued p)\<rparr>"
  by (erule seededE) (simp add: keep_first_def with_new_def)

lemma keep_first_idem: "keep_first (keep_first p) = keep_first p"
  by (cases "collection p") (simp_all add: keep_first_def)

lemma with_new_keep_first: "with_new (keep_first p) = with_new p"
  by (cases "collection p") (simp_all add: keep_first_def with_new_def)

lemma get_sticker_id_telegram:
  assumes "seeded p"
  shows "get_sticker_id cfg (telegram u) build_sticker text user p =
     (case build_sticker text user of
        Inl e \<Rightarrow> (Inl e, keep_first p)
      | Inr png \<Rightarrow> (Inr (new_file_id (issued p)), with_new p))"
proof -
  from assms obtain s ss where c: "collection p = Some (s # ss)"
    by (rule seededE)
  have k: "collection (keep_first p) = Some [s]" "issued (keep_first p) = issued p"
    using c by (simp_all add: keep_first_def)
  have w: "with_new p = (keep_first p)\<lparr>collection := Some [s, Sticker (new_file_id (issued p))],
      issued := Suc (issued p)\<rparr>"
    using c by (simp add: keep_first_def with_new_def)
  show ?thesis
    by (simp add: get_sticker_id_def clean_sticker_set_telegram [OF assms]
      get_sticker_set_telegram tg_add_sticker_to_set_def k w split: sum.splits)
qed


section \<open>The handlers on the reliable platform\<close>

lemma deliver_sends: "deliver x p = (Inr (), sends [x] p)"
  by (simp add: deliver_def sends_def)

lemma sends_sends: "sends ys (sends xs p) = sends (xs @ ys) p"
  by (simp add: sends_def)

lemma keep_first_sends: "keep_first (sends xs p) = sends xs (keep_first p)"
  by (simp add: keep_first_def sends_def)

lemma with_new_sends: "with_new (sends xs p) = sends xs (with_new p)"
  by (simp add: with_new_def sends_def)

lemma issued_sends: "issued (sends xs p) = issued p"
  by (simp add: sends_def)

lemmas platform_norm = deliver_sends sends_sends keep_first_sends with_new_sends issued_sends
  seeded_sends keep_first_idem

lemma history_setdefault: "history (setdefault_file_ids ud) = history ud"
  by (simp add: ud_defs split: option.splits)

lemma pending_setdefault: "pending (setdefault_file_ids ud) = pending ud"
  by (simp add: ud_defs split: option.splits)

lemma message_telegram:
  assumes "seeded p"
  shows "message cfg (telegram u) build_sticker user text ud p =
     (case build_sticker text user of
        Inr png \<Rightarrow>
          (Inr (), append_file_id (new_file_id (issued p)) ud,
           sends [ChatAction (user_id user), StickerReply (new_file_id (issued p))]
             ((keep_first p)\<lparr>issued := Suc (issued p)\<rparr>))
      | Inl e \<Rightarrow>
          (case e of
             HyphenationError m \<Rightarrow>
               (Inr (), ud, sends [ChatAction (user_id user), TextReply m] (keep_first p))
           | _ \<Rightarrow> (Inl e, ud, sends [ChatAction (user_id user)] (keep_first p))))"
  using assms
  by (simp add: message_def message_try_def get_sticker_id_telegram clean_sticker_set_telegram
      platform_norm seeded_with_new seeded_keep_first keep_first_with_new
      split: sum.splits error.splits)

lemma inline_telegram:
  assumes "seeded p"
  shows "inline cfg (telegram u) build_sticker key user query ud p =
     (if query = [] then
        (Inr (), setdefault_file_ids ud,
         sends [InlineAnswer \<lparr>results = stored_results (history ud), switch_pm_text = None,
                               switch_pm_parameter = None\<rparr>] (keep_first p))
      else
        (case build_sticker query user of
           Inr png \<Rightarrow>
             (Inr (), store_temp_file_id key (new_file_id (issued p)) (setdefault_file_ids ud),
              sends [InlineAnswer
                      \<lparr>results = InlineQueryResultCachedSticker key (new_file_id (issued p))
                                   # stored_results (history ud),
                       switch_pm_text = None, switch_pm_parameter = None\<rparr>]
                ((keep_first p)\<lparr>issued := Suc (issued p)\<rparr>))
         | Inl e \<Rightarrow>
             (case e of
                HyphenationError m \<Rightarrow>
                  (Inr (), setdefault_file_ids ud,
                   sends [InlineAnswer \<lparr>results = [], switch_pm_text = Some ''Click me!'',
                                         switch_pm_parameter = Some ''hyphenation_error''\<rparr>]
                     (keep_first p))
              | _ \<Rightarrow> (Inl e, setdefault_file_ids ud, keep_first p))))"
  using assms
  by (simp add: inline_def inline_publish_def get_sticker_id_telegram clean_sticker_set_telegram
      platform_norm seeded_with_new seeded_keep_first keep_first_with_new history_setdefault
      split: sum.splits error.splits)


lemma run_request_telegram:
  assumes "seeded p"
  shows "run_request cfg (telegram u) bs r p =
     (case r of
        Trim \<Rightarrow> keep_first p
      | Publish text user \<Rightarrow>
          (case bs text user of Inl e \<Rightarrow> keep_first p | Inr png \<Rightarrow> with_new p))"
  using assms
  by (cases r)
    (simp_all add: get_sticker_id_telegram clean_sticker_set_telegram split: sum.splits)

lemma first_keep_first: "map_option hd (collection (keep_first p)) = map_option hd (collection p)"
  by (cases "collection p") (simp_all add: keep_first_def)

lemma first_with_new:
  "seeded p \<Longrightarrow> map_option hd (collection (with_new p)) = map_option hd (collection p)"
  by (erule seededE) (simp add: with_new_def)

lemma run_request_invariant:
  assumes "seeded p"
  shows "seeded (run_request cfg (telegram u) bs r p)
       \<and> size_of (run_request cfg (telegram u) bs r p) \<in> {1, 2}
       \<and> map_option hd (collection (run_request cfg (telegram u) bs r p))
           = map_option hd (collection p)"
  using assms
  by (simp add: run_request_telegram seeded_keep_first seeded_with_new size_keep_first
      size_with_new first_keep_first first_with_new del: run_request.simps
      split: request.splits sum.splits)

lemma run_requests_invariant:
  "seeded p \<Longrightarrow> size_of p \<in> {1, 2} \<Longrightarrow>
   seeded (run_requests cfg (telegram u) bs rs p)
     \<and> size_of (run_requests cfg (telegram u) bs rs p) \<in> {1, 2}
     \<and> map_option hd (collection (run_requests cfg (telegram u) bs rs p))
         = map_option hd (collection p)"
proof (induction rs arbitrary: p)
  case Nil
  then show ?case by simp
next
  case (Cons r rs)
  note inv = run_request_invariant [OF Cons.prems(1), of cfg u bs r]
  from inv have "seeded (run_request cfg (telegram u) bs r p)"
    and "size_of (run_request cfg (telegram u) bs r p) \<in> {1, 2}" by simp_all
  from Cons.IH [OF this] inv show ?case by simp
qed

lemma seeded_size: "seeded p \<Longrightarrow> 1 \<le> size_of p"
  by (erule seededE) (simp add: size_of_def)

lemma keep_first_trimmed: "size_of p = 1 \<Longrightarrow> keep_first p = p"
  by (cases "collection p") (simp_all add: keep_first_def size_of_def)

section \<open>The size of the sticker set\<close>

text \<open>
  C1: on the reliable platform, starting from a sticker set that holds its seed and at most
  one more sticker, after every sequence of publish (\<open>get_sticker_id\<close>) and trim
  (\<open>clean_sticker_set\<close>) requests the set holds one or two stickers, never none and
  never more than two, and its first sticker is still the seed. A trim leaves exactly the
  first sticker, and a publish whose rendering succeeds adds exactly one sticker to a set
  that holds only its seed.
\<close>

theorem collection_size_one_or_two:
  assumes "seeded p" and "size_of p \<le> 2"
  shows "(\<forall>rs. size_of (run_requests cfg (telegram u) bs rs p) \<in> {1, 2}
            \<and> map_option hd (collection (run_requests cfg (telegram u) bs rs p))
                = map_option hd (collection p))
       \<and> collection (run_request cfg (telegram u) bs Trim p)
           = map_option (take 1) (collection p)
       \<and> (\<forall>text user png. size_of p = 1 \<and> bs text user = Inr png \<longrightarrow>
             collection (run_request cfg (telegram u) bs (Publish text user) p)
               = map_option (\<lambda>ss. ss @ [Sticker (new_file_id (issued p))]) (collection p)
             \<and> size_of (run_request cfg (telegram u) bs (Publish text user) p) = 2)"
proof -
  from assms seeded_size [OF assms(1)] have sz: "size_of p \<in> {1, 2}" by auto
  have a: "\<forall>rs. size_of (run_requests cfg (telegram u) bs rs p) \<in> {1, 2}
            \<and> map_option hd (collection (run_requests cfg (telegram u) bs rs p))
                = map_option hd (collection p)"
    using run_requests_invariant [OF assms(1) sz] by blast
  have b: "collection (run_request cfg (telegram u) bs Trim p)
           = map_option (take 1) (collection p)"
    using assms(1) by (simp add: run_request_telegram keep_first_def del: run_request.simps)
  have c: "\<forall>text user png. size_of p = 1 \<and> bs text user = Inr png \<longrightarrow>
             collection (run_request cfg (telegram u) bs (Publish text user) p)
               = map_option (\<lambda>ss. ss @ [Sticker (new_file_id (issued p))]) (collection p)
             \<and> size_of (run_request cfg (telegram u) bs (Publish text user) p) = 2"
  proof (intro allI impI, elim conjE)
    fix tx user png
    assume one: "size_of p = 1" and ok: "bs tx user = Inr png"
    from one have "collection (with_new p)
       = map_option (\<lambda>ss. ss @ [Sticker (new_file_id (issued p))]) (collection p)"
      by (cases "collection p") (simp_all add: with_new_def size_of_def)
    with ok assms(1) show "collection (run_request cfg (telegram u) bs (Publish tx user) p)
               = map_option (\<lambda>ss. ss @ [Sticker (new_file_id (issued p))]) (collection p)
             \<and> size_of (run_request cfg (telegram u) bs (Publish tx user) p) = 2"
      by (simp add: run_request_telegram size_with_new del: run_request.simps)
  qed
  from a b c show ?thesis by blast
qed

lemma seeded_demo: "seeded demo_platform"
  by (simp add: seeded_def demo_platform_def new_file_id_def str_nat.simps digit_char_def)

theorem collection_size_one_or_two_witness:
  "seeded demo_platform \<and> size_of demo_platform \<le> 2 \<and>
   size_of demo_platform = 1 \<and> demo_render ''hello'' demo_user = Inr ''hello'' \<and>
   size_of (run_requests demo_cfg (telegram ''bot'') demo_render
      [Publish ''hello'' demo_user, Publish ''bad'' demo_user, Trim, Publish ''hi'' demo_user]
      demo_platform) \<in> {1, 2} \<and>
   collection (run_request demo_cfg (telegram ''bot'') demo_render Trim demo_platform)
     = Some [Sticker ''sticker0''] \<and>
   collection (run_request demo_cfg (telegram ''bot'') demo_render (Publish ''hello'' demo_user)
      demo_platform) = Some [Sticker ''sticker0'', Sticker ''sticker1'']"
proof -
  have sz: "size_of demo_platform \<le> 2" "size_of demo_platform = 1"
    by (simp_all add: size_of_def demo_platform_def)
  have r: "demo_render ''hello'' demo_user = Inr ''hello''"
    by (simp add: demo_render_def)
  note t = collection_size_one_or_two [OF seeded_demo sz(1), of demo_cfg "''bot''" demo_render]
  from t have "size_of (run_requests demo_cfg (telegram ''bot'') demo_render
      [Publish ''hello'' demo_user, Publish ''bad'' demo_user, Trim, Publish ''hi'' demo_user]
      demo_platform) \<in> {1, 2}" by blast
  moreover from t have "collection (run_request demo_cfg (telegram ''bot'') demo_render Trim demo_platform)
     = Some [Sticker ''sticker0'']" by (simp add: demo_platform_def)
  moreover from t sz(2) r have "collection (run_request demo_cfg (telegram ''bot'') demo_render
      (Publish ''hello'' demo_user) demo_platform)
      = map_option (\<lambda>ss. ss @ [Sticker (new_file_id (issued demo_platform))])
          (collection demo_platform)" by blast
  then have "collection (run_request demo_cfg (telegram ''bot'') demo_render
      (Publish ''hello'' demo_user) demo_platform) = Some [Sticker ''sticker0'', Sticker ''sticker1'']"
    by (simp add: demo_platform_def new_file_id_def str_nat.simps digit_char_def)
  ultimately show ?thesis using seeded_demo sz r by blast
qed

section \<open>Two inline queries in a row\<close>

lemma chosen_promoted:
  assumes "pending ud key = Some fid" and "fid \<noteq> []" and "\<not> startswith key ''tweet''"
  shows "history (handle_chosen_inline_result key ud) = history ud @ [fid]
       \<and> pending (handle_chosen_inline_result key ud) = Map.empty"
  using assms by (auto simp: ud_defs split: option.splits)

lemma seeded_after_publish: "seeded p \<Longrightarrow> seeded (sends xs ((keep_first p)\<lparr>issued := Suc (issued p)\<rparr>))"
  using seeded_keep_first [OF seeded_with_new, of p]
  by (simp add: keep_first_with_new seeded_sends)

lemma inline_published:
  assumes "seeded p" and "query \<noteq> []" and "build_sticker query user = Inr png"
  shows "inline cfg (telegram u) build_sticker key user query ud p =
     (Inr (), store_temp_file_id key (new_file_id (issued p)) (setdefault_file_ids ud),
      sends [InlineAnswer
              \<lparr>results = InlineQueryResultCachedSticker key (new_file_id (issued p))
                           # stored_results (history ud),
               switch_pm_text = None, switch_pm_parameter = None\<rparr>]
        ((keep_first p)\<lparr>issued := Suc (issued p)\<rparr>))"
  using assms by (simp add: inline_telegram)

lemma pending_store:
  "pending (store_temp_file_id key fid ud) = (pending ud)(key \<mapsto> fid)"
  by (simp add: ud_defs)

lemma history_store: "history (store_temp_file_id key fid ud) = history ud"
  by (simp add: ud_defs)

lemma after_hello_eq:
  "after_hello =
     (Inr (), \<lparr>file_ids = Some [''old1'', ''old2''], temp_file_ids = Some [key1 \<mapsto> ''sticker1'']\<rparr>,
      \<lparr>collection = Some [Sticker ''sticker0''], issued = Suc (Suc 0),
       outbox = [InlineAnswer
                  \<lparr>results = [InlineQueryResultCachedSticker key1 ''sticker1'',
                              InlineQueryResultCachedSticker ''tweet 0'' ''old2'',
                              InlineQueryResultCachedSticker ''tweet 1'' ''old1''],
                   switch_pm_text = None, switch_pm_parameter = None\<rparr>]\<rparr>)"
  unfolding after_hello_def
  by (subst inline_published [OF seeded_demo, where png = "''hello''"])
    (simp_all add: demo_render_def demo_data_def demo_platform_def ud_defs keep_first_def
      sends_def new_file_id_def str_nat.simps digit_char_def stored_results_def)

lemma seeded_after_hello: "seeded (snd (snd after_hello))"
  by (simp add: after_hello_eq seeded_def new_file_id_def str_nat.simps digit_char_def)

lemma after_world_data:
  "fst (snd after_world) =
     \<lparr>file_ids = Some [''old1'', ''old2''],
      temp_file_ids = Some [key1 \<mapsto> ''sticker1'', key2 \<mapsto> ''sticker2'']\<rparr>"
  unfolding after_world_def
  by (subst inline_published [OF seeded_after_hello, where png = "''world''"])
    (simp_all add: demo_render_def after_hello_eq ud_defs
      new_file_id_def str_nat.simps digit_char_def)

text \<open>
  C2, as the specification states it: at most one pending entry exists per session, and a
  new one supersedes the old one. After the two queries the temporary dictionary of the
  user holds both keys, each with its own sticker.
\<close>

theorem one_pending_counterexample:
  "pending (fst (snd after_world)) key1 = Some ''sticker1'' \<and>
   pending (fst (snd after_world)) key2 = Some ''sticker2'' \<and>
   card (dom (pending (fst (snd after_world)))) = 2"
  by (simp add: after_world_data pending_def key1_def key2_def)

text \<open>
  C2, amended: an inline query with non-empty text whose sticker is published stores its
  key with the new file id in the temporary dictionary and keeps every entry stored under
  another key; an inline query with empty text, or one whose rendering fails, leaves the
  dictionary as it is. The entries are removed together, by a chosen-result notification
  whose id does not start with \<open>tweet\<close>.
\<close>

theorem pending_accumulates:
  assumes "seeded p"
  shows "(query \<noteq> [] \<and> build_sticker query user = Inr png \<longrightarrow>
            pending (fst (snd (inline cfg (telegram u) build_sticker key user query ud p)))
              = (pending ud)(key \<mapsto> new_file_id (issued p)))
       \<and> (query = [] \<or> build_sticker query user = Inl (HyphenationError m) \<longrightarrow>
            pending (fst (snd (inline cfg (telegram u) build_sticker key user query ud p)))
              = pending ud)
       \<and> (\<not> startswith result_id ''tweet'' \<longrightarrow>
            pending (handle_chosen_inline_result result_id ud) = Map.empty)"
  using assms
  by (auto simp: inline_telegram pending_store pending_setdefault)
    (simp add: ud_defs split: option.splits)

theorem pending_accumulates_witness:
  "seeded (snd (snd after_hello)) \<and> ''world'' \<noteq> [] \<and>
   demo_render ''world'' demo_user = Inr ''world'' \<and>
   pending (fst (snd after_world)) = [key1 \<mapsto> ''sticker1'', key2 \<mapsto> ''sticker2''] \<and>
   demo_render ''bad'' demo_user = Inl (HyphenationError ''no hyphenation'') \<and>
   pending (fst (snd (inline demo_cfg (telegram ''bot'') demo_render key2 demo_user ''bad''
      (fst (snd after_hello)) (snd (snd after_hello))))) = [key1 \<mapsto> ''sticker1''] \<and>
   \<not> startswith key1 ''tweet'' \<and>
   pending (handle_chosen_inline_result key1 (fst (snd after_hello))) = Map.empty"
proof -
  have w: "demo_render ''world'' demo_user = Inr ''world''"
    and b: "demo_render ''bad'' demo_user = Inl (HyphenationError ''no hyphenation'')"
    by (simp_all add: demo_render_def)
  have k: "\<not> startswith key1 ''tweet''" by (simp add: key1_def)
  have h: "pending (fst (snd after_hello)) = [key1 \<mapsto> ''sticker1'']"
    and i: "new_file_id (issued (snd (snd after_hello))) = ''sticker2''"
    by (simp_all add: after_hello_eq pending_def new_file_id_def str_nat.simps digit_char_def)
  note t = pending_accumulates [OF seeded_after_hello, where build_sticker = demo_render
      and user = demo_user and cfg = demo_cfg and u = "''bot''" and key = key2
      and ud = "fst (snd after_hello)" and m = "''no hyphenation''" and result_id = key1]
  from t [of "''world''" "''world''"] w
  have "pending (fst (snd after_world)) = [key1 \<mapsto> ''sticker1'', key2 \<mapsto> ''sticker2'']"
    unfolding after_world_def h i by simp
  moreover from t [of "''bad''" "''bad''"] b
  have "pending (fst (snd (inline demo_cfg (telegram ''bot'') demo_render key2 demo_user ''bad''
      (fst (snd after_hello)) (snd (snd after_hello))))) = [key1 \<mapsto> ''sticker1'']"
    unfolding h by simp
  moreover from t [of "''bad''" "''bad''"] k
  have "pending (handle_chosen_inline_result key1 (fst (snd after_hello))) = Map.empty"
    by simp
  ultimately show ?thesis using seeded_after_hello w b k by simp
qed


text \<open>
  C3, as the specification states it: after a second inline query the first pending entry
  is abandoned, and a chosen-result notification with the first key appends nothing to the
  stored list. After the two queries \<open>hello\<close> and \<open>world\<close>, the notification with the
  first key appends the first sticker to the stored list.
\<close>

theorem first_key_counterexample:
  "history (fst (snd after_world)) = [''old1'', ''old2''] \<and>
   history (handle_chosen_inline_result key1 (fst (snd after_world)))
     = [''old1'', ''old2'', ''sticker1'']"
  by (simp add: after_world_data ud_defs key1_def key2_def)

text \<open>
  C3, amended: after two inline queries with non-empty text whose stickers are published,
  under two different keys and with no chosen-result notification in between, both keys
  are in the temporary dictionary: a notification with the first key appends the first
  sticker to the stored list, one with the second key appends the second sticker, and
  either empties the dictionary.
\<close>

theorem both_keys_promoted:
  assumes "seeded p" and "q1 \<noteq> []" and "q2 \<noteq> []"
    and "build_sticker q1 user = Inr png1" and "build_sticker q2 user = Inr png2"
    and "uuid4_str k1" and "uuid4_str k2" and "k1 \<noteq> k2"
  shows "case inline cfg (telegram u) build_sticker k1 user q1 ud p of (r1, ud1, p1) \<Rightarrow>
         case inline cfg (telegram u) build_sticker k2 user q2 ud1 p1 of (r2, ud2, p2) \<Rightarrow>
           history (handle_chosen_inline_result k1 ud2) = history ud @ [new_file_id (issued p)]
         \<and> history (handle_chosen_inline_result k2 ud2)
             = history ud @ [new_file_id (Suc (issued p))]
         \<and> pending (handle_chosen_inline_result k1 ud2) = Map.empty
         \<and> pending (handle_chosen_inline_result k2 ud2) = Map.empty"
proof -
  let ?ud1 = "store_temp_file_id k1 (new_file_id (issued p)) (setdefault_file_ids ud)"
  let ?ud2 = "store_temp_file_id k2 (new_file_id (Suc (issued p))) (setdefault_file_ids ?ud1)"
  have t: "\<not> startswith k1 ''tweet''" "\<not> startswith k2 ''tweet''"
    using assms(6,7) by (simp_all add: uuid_not_tweet)
  have h: "history ?ud2 = history ud"
    by (simp add: history_store history_setdefault)
  have p1: "pending ?ud2 k1 = Some (new_file_id (issued p))"
    and p2: "pending ?ud2 k2 = Some (new_file_id (Suc (issued p)))"
    using assms(8) by (simp_all add: pending_store pending_setdefault)
  note c1 = chosen_promoted [OF p1 new_file_id_ne t(1)]
  note c2 = chosen_promoted [OF p2 new_file_id_ne t(2)]
  from c1 c2 h show ?thesis
    by (simp add: inline_published [where build_sticker = build_sticker, OF assms(1,2,4)]
        inline_published [where build_sticker = build_sticker,
          OF seeded_after_publish [OF assms(1)] assms(3,5)] issued_sends)
qed

theorem both_keys_promoted_witness:
  "seeded demo_platform \<and> ''hello'' \<noteq> [] \<and> ''world'' \<noteq> [] \<and>
   demo_render ''hello'' demo_user = Inr ''hello'' \<and>
   demo_render ''world'' demo_user = Inr ''world'' \<and>
   uuid4_str key1 \<and> uuid4_str key2 \<and> key1 \<noteq> key2 \<and>
   history (handle_chosen_inline_result key1 (fst (snd after_world)))
     = [''old1'', ''old2'', ''sticker1''] \<and>
   history (handle_chosen_inline_result key2 (fst (snd after_world)))
     = [''old1'', ''old2'', ''sticker2''] \<and>
   pending (handle_chosen_inline_result key1 (fst (snd after_world))) = Map.empty \<and>
   pending (handle_chosen_inline_result key2 (fst (snd after_world))) = Map.empty"
proof -
  have r: "demo_render ''hello'' demo_user = Inr ''hello''"
    "demo_render ''world'' demo_user = Inr ''world''"
    by (simp_all add: demo_render_def)
  have k: "uuid4_str key1" "uuid4_str key2" "key1 \<noteq> key2"
    by (simp_all add: key1_def key2_def uuid4_str_def hex_digit_def enumerate_eq_zip upt_rec)
  have n: "''hello'' \<noteq> []" "''world'' \<noteq> []" by simp_all
  have i: "new_file_id (issued demo_platform) = ''sticker1''"
    "new_file_id (Suc (issued demo_platform)) = ''sticker2''"
    "history demo_data = [''old1'', ''old2'']"
    by (simp_all add: demo_platform_def demo_data_def history_def new_file_id_def
        str_nat.simps digit_char_def)
  from both_keys_promoted [where build_sticker = demo_render and cfg = demo_cfg
      and u = "''bot''" and ud = demo_data, OF seeded_demo n r k]
  have "history (handle_chosen_inline_result key1 (fst (snd after_world)))
          = [''old1'', ''old2'', ''sticker1'']
      \<and> history (handle_chosen_inline_result key2 (fst (snd after_world)))
          = [''old1'', ''old2'', ''sticker2'']
      \<and> pending (handle_chosen_inline_result key1 (fst (snd after_world))) = Map.empty
      \<and> pending (handle_chosen_inline_result key2 (fst (snd after_world))) = Map.empty"
    unfolding after_world_def after_hello_def i by (simp add: case_prod_unfold)
  with seeded_demo n r k show ?thesis by simp
qed


section \<open>Promotion of the pending sticker\<close>

text \<open>
  C4: when the result id of a chosen-result notification is a key of the user's temporary
  dictionary, the sticker stored under it is appended to the user's stored list, which
  grows by exactly one with that sticker last, and the temporary dictionary is emptied.
  The keys of the dictionary are written by \<open>inline\<close> only, as \<open>str(uuid4())\<close>, which never
  starts with \<open>tweet\<close>, and the stickers are file ids of the platform, which are not empty.
  The second part is the scenario from the inline query on: after an inline query with
  non-empty text whose sticker is published, the notification with the key of that query
  appends the published sticker.
\<close>

theorem chosen_pending_promoted:
  "(pending ud key = Some fid \<and> fid \<noteq> [] \<and> \<not> startswith key ''tweet'' \<longrightarrow>
      history (handle_chosen_inline_result key ud) = history ud @ [fid]
    \<and> length (history (handle_chosen_inline_result key ud)) = Suc (length (history ud))
    \<and> pending (handle_chosen_inline_result key ud) = Map.empty)
 \<and> (seeded p \<and> query \<noteq> [] \<and> build_sticker query user = Inr png \<and> uuid4_str key \<longrightarrow>
      (case inline cfg (telegram u) build_sticker key user query ud p of (r, ud1, p1) \<Rightarrow>
         r = Inr ()
       \<and> history (handle_chosen_inline_result key ud1) = history ud @ [new_file_id (issued p)]
       \<and> length (history (handle_chosen_inline_result key ud1)) = Suc (length (history ud))
       \<and> pending (handle_chosen_inline_result key ud1) = Map.empty))"
proof (intro conjI impI; elim conjE)
  assume a: "pending ud key = Some fid" "fid \<noteq> []" "\<not> startswith key ''tweet''"
  from chosen_promoted [OF a]
  show "history (handle_chosen_inline_result key ud) = history ud @ [fid]"
    and "length (history (handle_chosen_inline_result key ud)) = Suc (length (history ud))"
    and "pending (handle_chosen_inline_result key ud) = Map.empty"
    by simp_all
next
  assume s: "seeded p" and q: "query \<noteq> []" and b: "build_sticker query user = Inr png"
    and k: "uuid4_str key"
  let ?ud1 = "store_temp_file_id key (new_file_id (issued p)) (setdefault_file_ids ud)"
  have "pending ?ud1 key = Some (new_file_id (issued p))"
    by (simp add: pending_store)
  from chosen_promoted [OF this new_file_id_ne uuid_not_tweet [OF k]]
  show "case inline cfg (telegram u) build_sticker key user query ud p of (r, ud1, p1) \<Rightarrow>
         r = Inr ()
       \<and> history (handle_chosen_inline_result key ud1) = history ud @ [new_file_id (issued p)]
       \<and> length (history (handle_chosen_inline_result key ud1)) = Suc (length (history ud))
       \<and> pending (handle_chosen_inline_result key ud1) = Map.empty"
    by (simp add: inline_published [where build_sticker = build_sticker, OF s q b]
        history_store history_setdefault)
qed

theorem chosen_pending_promoted_witness:
  "pending (fst (snd after_hello)) key1 = Some ''sticker1'' \<and> ''sticker1'' \<noteq> [] \<and>
   \<not> startswith key1 ''tweet'' \<and>
   seeded demo_platform \<and> ''hello'' \<noteq> [] \<and> demo_render ''hello'' demo_user = Inr ''hello'' \<and>
   uuid4_str key1 \<and>
   history (fst (snd after_hello)) = [''old1'', ''old2''] \<and>
   history (handle_chosen_inline_result key1 (fst (snd after_hello)))
     = [''old1'', ''old2'', ''sticker1''] \<and>
   pending (handle_chosen_inline_result key1 (fst (snd after_hello))) = Map.empty"
proof -
  have a: "pending (fst (snd after_hello)) key1 = Some ''sticker1''"
    and h: "history (fst (snd after_hello)) = [''old1'', ''old2'']"
    by (simp_all add: after_hello_eq pending_def history_def)
  have t: "\<not> startswith key1 ''tweet''" by (simp add: key1_def)
  have k: "uuid4_str key1"
    by (simp add: key1_def uuid4_str_def hex_digit_def enumerate_eq_zip upt_rec)
  have r: "demo_render ''hello'' demo_user = Inr ''hello''" by (simp add: demo_render_def)
  have i: "new_file_id (issued demo_platform) = ''sticker1''"
    "history demo_data = [''old1'', ''old2'']"
    by (simp_all add: demo_platform_def demo_data_def history_def new_file_id_def
        str_nat.simps digit_char_def)
  note inst = chosen_pending_promoted [where ud = "fst (snd after_hello)" and key = key1
      and fid = "''sticker1''" and p = demo_platform and query = "''hello''"
      and build_sticker = demo_render and user = demo_user and png = "''hello''"
      and cfg = demo_cfg and u = "''bot''"]
  from inst a t have "history (handle_chosen_inline_result key1 (fst (snd after_hello)))
     = history (fst (snd after_hello)) @ [''sticker1'']
     \<and> pending (handle_chosen_inline_result key1 (fst (snd after_hello))) = Map.empty"
    by simp
  moreover from chosen_pending_promoted [where ud = demo_data and key = key1
      and p = demo_platform and query = "''hello''" and build_sticker = demo_render
      and user = demo_user and png = "''hello''" and cfg = demo_cfg and u = "''bot''"]
    k r seeded_demo
  have "history (handle_chosen_inline_result key1 (fst (snd after_hello)))
     = history demo_data @ [new_file_id (issued demo_platform)]"
    unfolding after_hello_def by (simp add: case_prod_unfold)
  ultimately show ?thesis using a h t k r seeded_demo i by simp
qed

section \<open>The answer to an inline query\<close>

text \<open>
  C5: the candidates of the answer to an inline query are the pending one first, when there
  is one, and then the stored stickers from the most recent to the oldest, with the ids
  \<open>tweet 0\<close>, \<open>tweet 1\<close> and so on; the answer to a query whose rendering fails has no
  candidates. When the query text is empty the answer holds exactly the candidates of the
  stored stickers in that order, no sticker is registered (the platform issues no file id
  and the set is left with its first sticker), and the temporary dictionary and the stored
  list are as before.
\<close>

theorem inline_answer_candidates:
  assumes "seeded p"
  shows "(query = [] \<longrightarrow>
            (case inline cfg (telegram u) build_sticker key user query ud p of (r, ud1, p1) \<Rightarrow>
               r = Inr ()
             \<and> outbox p1 = outbox p @ [InlineAnswer \<lparr>results = stored_results (history ud),
                   switch_pm_text = None, switch_pm_parameter = None\<rparr>]
             \<and> issued p1 = issued p
             \<and> collection p1 = map_option (take 1) (collection p)
             \<and> temp_file_ids ud1 = temp_file_ids ud
             \<and> history ud1 = history ud))
       \<and> (query \<noteq> [] \<and> build_sticker query user = Inr png \<longrightarrow>
            outbox (snd (snd (inline cfg (telegram u) build_sticker key user query ud p)))
              = outbox p @ [InlineAnswer
                   \<lparr>results = InlineQueryResultCachedSticker key (new_file_id (issued p))
                               # stored_results (history ud),
                    switch_pm_text = None, switch_pm_parameter = None\<rparr>])
       \<and> (query \<noteq> [] \<and> build_sticker query user = Inl (HyphenationError m) \<longrightarrow>
            outbox (snd (snd (inline cfg (telegram u) build_sticker key user query ud p)))
              = outbox p @ [InlineAnswer \<lparr>results = [], switch_pm_text = Some ''Click me!'',
                   switch_pm_parameter = Some ''hyphenation_error''\<rparr>])
       \<and> map sticker_file_id (stored_results (history ud)) = rev (history ud)
       \<and> map res_id (stored_results (history ud))
           = map (\<lambda>i. ''tweet '' @ str_nat i) [0..<length (history ud)]"
proof -
  have ud: "temp_file_ids (setdefault_file_ids ud) = temp_file_ids ud"
    by (simp add: setdefault_file_ids_def split: option.splits)
  from assms show ?thesis
    by (simp add: inline_telegram stored_results_file_ids stored_results_ids
        history_setdefault ud sends_def keep_first_def)
qed

theorem inline_answer_candidates_witness:
  "seeded demo_platform \<and>
   outbox (snd (snd (inline demo_cfg (telegram ''bot'') demo_render key1 demo_user [] demo_data
      demo_platform)))
     = [InlineAnswer \<lparr>results = [InlineQueryResultCachedSticker ''tweet 0'' ''old2'',
                                   InlineQueryResultCachedSticker ''tweet 1'' ''old1''],
                       switch_pm_text = None, switch_pm_parameter = None\<rparr>] \<and>
   ''hello'' \<noteq> [] \<and> demo_render ''hello'' demo_user = Inr ''hello'' \<and>
   outbox (snd (snd after_hello))
     = [InlineAnswer \<lparr>results = [InlineQueryResultCachedSticker key1 ''sticker1'',
                                   InlineQueryResultCachedSticker ''tweet 0'' ''old2'',
                                   InlineQueryResultCachedSticker ''tweet 1'' ''old1''],
                       switch_pm_text = None, switch_pm_parameter = None\<rparr>] \<and>
   ''bad'' \<noteq> [] \<and> demo_render ''bad'' demo_user = Inl (HyphenationError ''no hyphenation'') \<and>
   outbox (snd (snd (inline demo_cfg (telegram ''bot'') demo_render key1 demo_user ''bad''
      demo_data demo_platform)))
     = [InlineAnswer \<lparr>results = [], switch_pm_text = Some ''Click me!'',
                       switch_pm_parameter = Some ''hyphenation_error''\<rparr>]"
proof -
  have r: "demo_render ''hello'' demo_user = Inr ''hello''"
    "demo_render ''bad'' demo_user = Inl (HyphenationError ''no hyphenation'')"
    by (simp_all add: demo_render_def)
  have i: "new_file_id (issued demo_platform) = ''sticker1''"
    "history demo_data = [''old1'', ''old2'']" "outbox demo_platform = []"
    "stored_results [''old1'', ''old2''] = [InlineQueryResultCachedSticker ''tweet 0'' ''old2'',
                                   InlineQueryResultCachedSticker ''tweet 1'' ''old1'']"
    by (simp_all add: demo_platform_def demo_data_def history_def new_file_id_def
        str_nat.simps digit_char_def stored_results_def)
  note inst = inline_answer_candidates [OF seeded_demo, where build_sticker = demo_render
      and user = demo_user and cfg = demo_cfg and u = "''bot''" and key = key1
      and ud = demo_data and m = "''no hyphenation''"]
  from inst [of "[]" "[]"]
  have "outbox (snd (snd (inline demo_cfg (telegram ''bot'') demo_render key1 demo_user []
      demo_data demo_platform)))
     = [InlineAnswer \<lparr>results = [InlineQueryResultCachedSticker ''tweet 0'' ''old2'',
                                   InlineQueryResultCachedSticker ''tweet 1'' ''old1''],
                       switch_pm_text = None, switch_pm_parameter = None\<rparr>]"
    unfolding i by (simp add: case_prod_unfold)
  moreover from inst [of "''hello''" "''hello''"] r(1)
  have "outbox (snd (snd after_hello))
     = [InlineAnswer \<lparr>results = [InlineQueryResultCachedSticker key1 ''sticker1'',
                                   InlineQueryResultCachedSticker ''tweet 0'' ''old2'',
                                   InlineQueryResultCachedSticker ''tweet 1'' ''old1''],
                       switch_pm_text = None, switch_pm_parameter = None\<rparr>]"
    unfolding i after_hello_def by simp
  moreover from inst [of "''bad''" "''bad''"] r(2)
  have "outbox (snd (snd (inline demo_cfg (telegram ''bot'') demo_render key1 demo_user ''bad''
      demo_data demo_platform)))
     = [InlineAnswer \<lparr>results = [], switch_pm_text = Some ''Click me!'',
                       switch_pm_parameter = Some ''hyphenation_error''\<rparr>]"
    unfolding i by simp
  ultimately show ?thesis using seeded_demo r by simp
qed


section \<open>Getting the sticker set twice\<close>

text \<open>
  C8, as the specification states it: \<open>get_sticker_set\<close> treats an answer of the platform
  that the set already exists as success. On the platform \<open>raced\<close> the lookup is answered
  \<open>Stickerset_invalid\<close> and the creation \<open>already occupied\<close>; \<open>get_sticker_set\<close> raises that
  error, while the set is there and holds its seed.
\<close>

theorem already_exists_counterexample:
  "get_sticker_set demo_cfg (raced ''bot'') (build_sticker_set_name demo_cfg (raced ''bot''))
     empty_platform
   = (Inl (BadRequest ''Sticker set name is already occupied''),
      \<lparr>collection = Some [Sticker ''sticker0''], issued = Suc 0, outbox = []\<rparr>)"
  by (simp add: get_sticker_set_def raced_def telegram_def tg_get_sticker_set_def
      tg_create_new_sticker_set_def empty_platform_def new_file_id_def str_nat.simps
      digit_char_def)

text \<open>
  C8, amended: on the reliable platform \<open>get_sticker_set\<close> is idempotent, a second call
  returns what the first returned and leaves the state the first left; when the set does
  not exist it is created with exactly one sticker, the seed, and when it exists it is
  returned and nothing changes. On any platform, when the lookup is answered with a
  \<open>BadRequest\<close> whose message contains \<open>invalid\<close> and the creation raises, whatever it
  raises is raised by \<open>get_sticker_set\<close>: an answer that the set already exists is not
  treated as success.
\<close>

theorem get_sticker_set_idempotent:
  "(case get_sticker_set cfg (telegram u) name p of (r1, p1) \<Rightarrow>
      get_sticker_set cfg (telegram u) name p1 = (r1, p1))
 \<and> (collection p = None \<longrightarrow>
      get_sticker_set cfg (telegram u) name p
        = (Inr (StickerSet [Sticker (new_file_id (issued p))]),
           p\<lparr>collection := Some [Sticker (new_file_id (issued p))], issued := Suc (issued p)\<rparr>))
 \<and> (\<forall>ss. collection p = Some ss \<longrightarrow>
      get_sticker_set cfg (telegram u) name p = (Inr (StickerSet ss), p))
 \<and> (\<forall>e e2 q1 q2.
      bot_get_sticker_set bt name q = (Inl (BadRequest e), q1) \<and> str_in ''invalid'' e \<and>
      bot_create_new_sticker_set bt (ADMIN cfg) name (STICKER_SET_NAME cfg) emojis (logo cfg) q1
        = (Inl e2, q2) \<longrightarrow>
      get_sticker_set cfg bt name q = (Inl e2, q2))"
proof -
  have a: "case get_sticker_set cfg (telegram u) name p of (r1, p1) \<Rightarrow>
      get_sticker_set cfg (telegram u) name p1 = (r1, p1)"
    by (simp add: get_sticker_set_telegram split: option.splits)
  have b: "collection p = None \<longrightarrow>
      get_sticker_set cfg (telegram u) name p
        = (Inr (StickerSet [Sticker (new_file_id (issued p))]),
           p\<lparr>collection := Some [Sticker (new_file_id (issued p))], issued := Suc (issued p)\<rparr>)"
    by (simp add: get_sticker_set_telegram)
  have c: "\<forall>ss. collection p = Some ss \<longrightarrow>
      get_sticker_set cfg (telegram u) name p = (Inr (StickerSet ss), p)"
    by (simp add: get_sticker_set_telegram)
  have d: "\<forall>e e2 q1 q2.
      bot_get_sticker_set bt name q = (Inl (BadRequest e), q1) \<and> str_in ''invalid'' e \<and>
      bot_create_new_sticker_set bt (ADMIN cfg) name (STICKER_SET_NAME cfg) emojis (logo cfg) q1
        = (Inl e2, q2) \<longrightarrow>
      get_sticker_set cfg bt name q = (Inl e2, q2)"
    by (simp add: get_sticker_set_def)
  from a b c d show ?thesis by blast
qed

theorem get_sticker_set_idempotent_witness:
  "collection empty_platform = None \<and>
   get_sticker_set demo_cfg (telegram ''bot'') ''tweets_by_bot'' empty_platform
     = (Inr (StickerSet [Sticker ''sticker0'']), demo_platform) \<and>
   collection demo_platform = Some [Sticker ''sticker0''] \<and>
   get_sticker_set demo_cfg (telegram ''bot'') ''tweets_by_bot'' demo_platform
     = (Inr (StickerSet [Sticker ''sticker0'']), demo_platform) \<and>
   bot_get_sticker_set (raced ''bot'') ''tweets_by_bot'' empty_platform
     = (Inl (BadRequest ''Stickerset_invalid''), demo_platform) \<and>
   str_in ''invalid'' ''Stickerset_invalid'' \<and>
   bot_create_new_sticker_set (raced ''bot'') (ADMIN demo_cfg) ''tweets_by_bot''
       (STICKER_SET_NAME demo_cfg) emojis (logo demo_cfg) demo_platform
     = (Inl (BadRequest ''Sticker set name is already occupied''), demo_platform) \<and>
   get_sticker_set demo_cfg (raced ''bot'') ''tweets_by_bot'' empty_platform
     = (Inl (BadRequest ''Sticker set name is already occupied''), demo_platform)"
proof -
  have n: "new_file_id 0 = ''sticker0''"
    by (simp add: new_file_id_def str_nat.simps digit_char_def)
  have c: "collection empty_platform = None"
    "collection demo_platform = Some [Sticker ''sticker0'']"
    by (simp_all add: empty_platform_def demo_platform_def)
  have e: "empty_platform\<lparr>collection := Some [Sticker ''sticker0''], issued := Suc 0\<rparr>
      = demo_platform" "issued empty_platform = 0"
    by (simp_all add: empty_platform_def demo_platform_def)
  have g: "bot_get_sticker_set (raced ''bot'') ''tweets_by_bot'' empty_platform
     = (Inl (BadRequest ''Stickerset_invalid''), demo_platform)"
    by (simp add: raced_def telegram_def tg_get_sticker_set_def tg_create_new_sticker_set_def
        empty_platform_def demo_platform_def n)
  have m: "bot_create_new_sticker_set (raced ''bot'') (ADMIN demo_cfg) ''tweets_by_bot''
       (STICKER_SET_NAME demo_cfg) emojis (logo demo_cfg) demo_platform
     = (Inl (BadRequest ''Sticker set name is already occupied''), demo_platform)"
    by (simp add: raced_def telegram_def tg_create_new_sticker_set_def demo_platform_def)
  have s: "str_in ''invalid'' ''Stickerset_invalid''" by simp
  note inst = get_sticker_set_idempotent [where cfg = demo_cfg and u = "''bot''"
      and name = "''tweets_by_bot''" and bt = "raced ''bot''" and q = empty_platform]
  from inst [of empty_platform] c(1)
  have "get_sticker_set demo_cfg (telegram ''bot'') ''tweets_by_bot'' empty_platform
     = (Inr (StickerSet [Sticker ''sticker0'']), demo_platform)"
    by (simp add: e n)
  moreover from inst [of demo_platform] c(2)
  have "get_sticker_set demo_cfg (telegram ''bot'') ''tweets_by_bot'' demo_platform
     = (Inr (StickerSet [Sticker ''sticker0'']), demo_platform)"
    by simp
  moreover from inst [of demo_platform] g m s
  have "get_sticker_set demo_cfg (raced ''bot'') ''tweets_by_bot'' empty_platform
     = (Inl (BadRequest ''Sticker set name is already occupied''), demo_platform)"
    by blast
  ultimately show ?thesis using c g m s by simp
qed

section \<open>A rendering that fails\<close>

text \<open>
  C9, as the specification states it: when the rendering fails the user receives the
  message of the failure. For an inline query with the text \<open>bad\<close>, which \<open>demo_render\<close>
  refuses with the message \<open>no hyphenation\<close>, all that \<open>inline\<close> sends is an answer without
  candidates and with the button \<open>Click me!\<close>; the message of the failure is not sent.
\<close>

theorem render_failure_inline_counterexample:
  "demo_render ''bad'' demo_user = Inl (HyphenationError ''no hyphenation'') \<and>
   outbox demo_platform = [] \<and>
   outbox (snd (snd (inline demo_cfg (telegram ''bot'') demo_render key1 demo_user ''bad''
      demo_data demo_platform)))
     = [InlineAnswer \<lparr>results = [], switch_pm_text = Some ''Click me!'',
                       switch_pm_parameter = Some ''hyphenation_error''\<rparr>]"
proof -
  have "inline demo_cfg (telegram ''bot'') demo_render key1 demo_user ''bad'' demo_data
      demo_platform
    = (Inr (), setdefault_file_ids demo_data,
       sends [InlineAnswer \<lparr>results = [], switch_pm_text = Some ''Click me!'',
                             switch_pm_parameter = Some ''hyphenation_error''\<rparr>]
         (keep_first demo_platform))"
    by (simp add: inline_telegram [OF seeded_demo] demo_render_def)
  then show ?thesis
    by (simp add: sends_def keep_first_def demo_platform_def demo_render_def)
qed

text \<open>
  C9, amended: when the rendering fails with a \<open>HyphenationError\<close>, the message handler
  replies with the text of the error, as it is, and with no sticker; the inline handler
  answers without candidates and with the button \<open>Click me!\<close> that opens the private chat
  with the parameter \<open>hyphenation_error\<close>, and does not send the text of the error. Neither
  handler raises, and neither renders or registers anything again: no file id is issued.
  The sticker set is left with its first sticker only, so it is unchanged when it held
  only the seed; the inline handler leaves the temporary dictionary and the stored list as
  they were, and the message handler leaves the user data unchanged.
\<close>

theorem render_failure_amended:
  assumes "seeded p" and "build_sticker body user = Inl (HyphenationError m)"
  shows "(case message cfg (telegram u) build_sticker user body ud p of (r, ud1, p1) \<Rightarrow>
            r = Inr () \<and> ud1 = ud
          \<and> outbox p1 = outbox p @ [ChatAction (user_id user), TextReply m]
          \<and> issued p1 = issued p
          \<and> collection p1 = map_option (take 1) (collection p)
          \<and> size_of p1 = 1
          \<and> (size_of p = 1 \<longrightarrow> collection p1 = collection p))
       \<and> (body \<noteq> [] \<longrightarrow>
           (case inline cfg (telegram u) build_sticker key user body ud p of (r, ud1, p1) \<Rightarrow>
              r = Inr ()
            \<and> temp_file_ids ud1 = temp_file_ids ud \<and> history ud1 = history ud
            \<and> outbox p1 = outbox p @ [InlineAnswer \<lparr>results = [],
                  switch_pm_text = Some ''Click me!'',
                  switch_pm_parameter = Some ''hyphenation_error''\<rparr>]
            \<and> issued p1 = issued p
            \<and> collection p1 = map_option (take 1) (collection p)
            \<and> size_of p1 = 1
            \<and> (size_of p = 1 \<longrightarrow> collection p1 = collection p)))"
proof -
  have ud: "temp_file_ids (setdefault_file_ids ud) = temp_file_ids ud"
    by (simp add: setdefault_file_ids_def split: option.splits)
  have k: "issued (keep_first p) = issued p" "outbox (keep_first p) = outbox p"
    "collection (keep_first p) = map_option (take 1) (collection p)"
    by (simp_all add: keep_first_def)
  have s: "\<And>xs. outbox (sends xs (keep_first p)) = outbox p @ xs"
    "\<And>xs. collection (sends xs (keep_first p)) = map_option (take 1) (collection p)"
    "\<And>xs. size_of (sends xs (keep_first p)) = 1"
    "\<And>xs. size_of p = 1 \<Longrightarrow> collection (sends xs (keep_first p)) = collection p"
    using size_keep_first [OF assms(1)] keep_first_trimmed [of p]
    by (simp_all add: sends_def k size_of_def)
  from assms s show ?thesis
    by (simp add: message_telegram inline_telegram issued_sends k ud history_setdefault)
qed

theorem render_failure_amended_witness:
  "seeded demo_platform \<and>
   demo_render ''bad'' demo_user = Inl (HyphenationError ''no hyphenation'') \<and>
   ''bad'' \<noteq> [] \<and> size_of demo_platform = 1 \<and>
   message demo_cfg (telegram ''bot'') demo_render demo_user ''bad'' demo_data demo_platform
     = (Inr (), demo_data,
        demo_platform\<lparr>outbox := [ChatAction 7, TextReply ''no hyphenation'']\<rparr>) \<and>
   inline demo_cfg (telegram ''bot'') demo_render key1 demo_user ''bad'' demo_data demo_platform
     = (Inr (), demo_data,
        demo_platform\<lparr>outbox := [InlineAnswer \<lparr>results = [],
           switch_pm_text = Some ''Click me!'',
           switch_pm_parameter = Some ''hyphenation_error''\<rparr>]\<rparr>)"
proof -
  have r: "demo_render ''bad'' demo_user = Inl (HyphenationError ''no hyphenation'')"
    by (simp add: demo_render_def)
  have z: "size_of demo_platform = 1" by (simp add: size_of_def demo_platform_def)
  have d: "outbox demo_platform = []" "issued demo_platform = Suc 0"
    "collection demo_platform = Some [Sticker ''sticker0'']" "user_id demo_user = 7"
    "temp_file_ids demo_data = None" "history demo_data = [''old1'', ''old2'']"
    "file_ids demo_data = Some [''old1'', ''old2'']"
    by (simp_all add: demo_platform_def demo_user_def demo_data_def history_def)
  note inst = render_failure_amended [OF seeded_demo, where build_sticker = demo_render
      and body = "''bad''" and user = demo_user and m = "''no hyphenation''"
      and cfg = demo_cfg and u = "''bot''" and ud = demo_data and key = key1, OF r]
  obtain r1 ud1 p1 where m: "message demo_cfg (telegram ''bot'') demo_render demo_user ''bad''
      demo_data demo_platform = (r1, ud1, p1)" by (rule prod_cases3)
  obtain r2 ud2 p2 where i: "inline demo_cfg (telegram ''bot'') demo_render key1 demo_user
      ''bad'' demo_data demo_platform = (r2, ud2, p2)" by (rule prod_cases3)
  from inst m z have "r1 = Inr ()" "ud1 = demo_data"
    "outbox p1 = [ChatAction 7, TextReply ''no hyphenation'']" "issued p1 = Suc 0"
    "collection p1 = Some [Sticker ''sticker0'']"
    by (simp_all add: d)
  then have a: "(r1, ud1, p1) = (Inr (), demo_data,
        demo_platform\<lparr>outbox := [ChatAction 7, TextReply ''no hyphenation'']\<rparr>)"
    by (cases p1) (simp add: demo_platform_def)
  from inst i z have "r2 = Inr ()" "temp_file_ids ud2 = None"
    "history ud2 = [''old1'', ''old2'']"
    "outbox p2 = [InlineAnswer \<lparr>results = [], switch_pm_text = Some ''Click me!'',
           switch_pm_parameter = Some ''hyphenation_error''\<rparr>]" "issued p2 = Suc 0"
    "collection p2 = Some [Sticker ''sticker0'']"
    by (simp_all add: d)
  moreover have "file_ids ud2 = Some [''old1'', ''old2'']"
    using i by (simp add: inline_telegram [OF seeded_demo] r setdefault_file_ids_def d)
  ultimately have b: "(r2, ud2, p2) = (Inr (), demo_data,
        demo_platform\<lparr>outbox := [InlineAnswer \<lparr>results = [],
           switch_pm_text = Some ''Click me!'',
           switch_pm_parameter = Some ''hyphenation_error''\<rparr>]\<rparr>)"
    by (cases p2, cases ud2) (simp add: demo_platform_def demo_data_def)
  from a b m i r z seeded_demo show ?thesis by simp
qed

section \<open>The ids of the candidates\<close>

text \<open>
  C10: the id of every candidate for a stored sticker starts with \<open>tweet\<close>, and the
  chosen-result handler changes nothing for such an id, so a stored sticker is never
  appended a second time. A key \<open>str(uuid4())\<close> never starts with \<open>tweet\<close> and is the id of
  no candidate for a stored sticker; for such a key the handler looks the key up in the
  temporary dictionary, appends the sticker it finds there, if any, and empties the
  dictionary.
\<close>

theorem result_ids_disjoint:
  "(\<forall>r \<in> set (stored_results fids).
      startswith (res_id r) ''tweet '' \<and> startswith (res_id r) ''tweet''
    \<and> handle_chosen_inline_result (res_id r) ud = ud)
 \<and> (uuid4_str key \<longrightarrow>
      \<not> startswith key ''tweet''
    \<and> (\<forall>r \<in> set (stored_results fids). res_id r \<noteq> key)
    \<and> history (handle_chosen_inline_result key ud)
        = (case pending ud key of
             None \<Rightarrow> history ud
           | Some fid \<Rightarrow> if fid \<noteq> [] then history ud @ [fid] else history ud)
    \<and> pending (handle_chosen_inline_result key ud) = Map.empty)"
proof -
  have ids: "\<And>r. r \<in> set (stored_results fids) \<Longrightarrow>
      startswith (res_id r) ''tweet '' \<and> startswith (res_id r) ''tweet''"
  proof -
    fix r assume "r \<in> set (stored_results fids)"
    then have "res_id r \<in> set (map res_id (stored_results fids))" by simp
    then obtain i where "res_id r = ''tweet '' @ str_nat i"
      unfolding stored_results_ids by auto
    then show "startswith (res_id r) ''tweet '' \<and> startswith (res_id r) ''tweet''" by simp
  qed
  have a: "\<forall>r \<in> set (stored_results fids).
      startswith (res_id r) ''tweet '' \<and> startswith (res_id r) ''tweet''
    \<and> handle_chosen_inline_result (res_id r) ud = ud"
    using ids by (simp add: handle_chosen_inline_result_def)
  have b: "uuid4_str key \<longrightarrow>
      \<not> startswith key ''tweet''
    \<and> (\<forall>r \<in> set (stored_results fids). res_id r \<noteq> key)
    \<and> history (handle_chosen_inline_result key ud)
        = (case pending ud key of
             None \<Rightarrow> history ud
           | Some fid \<Rightarrow> if fid \<noteq> [] then history ud @ [fid] else history ud)
    \<and> pending (handle_chosen_inline_result key ud) = Map.empty"
  proof
    assume k: "uuid4_str key"
    then have t: "\<not> startswith key ''tweet''" by (rule uuid_not_tweet)
    from t ids have "\<forall>r \<in> set (stored_results fids). res_id r \<noteq> key" by auto
    moreover from t have "history (handle_chosen_inline_result key ud)
        = (case pending ud key of
             None \<Rightarrow> history ud
           | Some fid \<Rightarrow> if fid \<noteq> [] then history ud @ [fid] else history ud)"
      by (simp add: ud_defs split: option.splits)
    moreover from t have "pending (handle_chosen_inline_result key ud) = Map.empty"
      by (simp add: ud_defs split: option.splits)
    ultimately show "\<not> startswith key ''tweet''
    \<and> (\<forall>r \<in> set (stored_results fids). res_id r \<noteq> key)
    \<and> history (handle_chosen_inline_result key ud)
        = (case pending ud key of
             None \<Rightarrow> history ud
           | Some fid \<Rightarrow> if fid \<noteq> [] then history ud @ [fid] else history ud)
    \<and> pending (handle_chosen_inline_result key ud) = Map.empty"
      using t by simp
  qed
  from a b show ?thesis by simp
qed

theorem result_ids_disjoint_witness:
  "InlineQueryResultCachedSticker ''tweet 0'' ''old1'' \<in> set (stored_results [''old1'']) \<and>
   startswith ''tweet 0'' ''tweet'' \<and>
   handle_chosen_inline_result ''tweet 0'' stale_data = stale_data \<and>
   uuid4_str key1 \<and> \<not> startswith key1 ''tweet'' \<and> ''tweet 0'' \<noteq> key1 \<and>
   history (handle_chosen_inline_result key1 stale_data) = [''old1'', ''sticker1''] \<and>
   pending (handle_chosen_inline_result key1 stale_data) = Map.empty"
proof -
  have m: "InlineQueryResultCachedSticker ''tweet 0'' ''old1'' \<in> set (stored_results [''old1''])"
    by (simp add: stored_results_def str_nat.simps digit_char_def)
  have k: "uuid4_str key1"
    by (simp add: key1_def uuid4_str_def hex_digit_def enumerate_eq_zip upt_rec)
  have d: "pending stale_data key1 = Some ''sticker1''" "history stale_data = [''old1'']"
    by (simp_all add: stale_data_def pending_def history_def)
  note inst = result_ids_disjoint [of "[''old1'']" stale_data key1]
  from inst m have "startswith ''tweet 0'' ''tweet''
      \<and> handle_chosen_inline_result ''tweet 0'' stale_data = stale_data" by fastforce
  moreover from inst k m have "\<not> startswith key1 ''tweet''" "''tweet 0'' \<noteq> key1"
    by fastforce+
  moreover from inst k have "history (handle_chosen_inline_result key1 stale_data)
      = [''old1'', ''sticker1'']"
    "pending (handle_chosen_inline_result key1 stale_data) = Map.empty"
    by (simp_all add: d)
  ultimately show ?thesis using m k by simp
qed

end
